theory Spec2Isabelle
  imports Main "HOL-Library.Word" "HOL-Library.Sublist"
begin

section \<open>AWSCoreAttributionManager.cpp: the attribution metric reporter\<close>

text \<open>
  A shallow embedding of \<^verbatim>\<open>Gems/AWSCore/Code/Source/Editor/Attribution/AWSCoreAttributionManager.cpp\<close>.
  Every member function of \<^verbatim>\<open>AWSAttributionManager\<close> is a HOL function of the same name.
  What the C++ reads from its surroundings (the clock, the file system, the AWS profile,
  the module manager, the outcome of the HTTP job) is an explicit argument; what it
  mutates (the settings registry, the preferences file, the request configuration, the
  metric) is passed in and returned; each \<^verbatim>\<open>AZ_Warning\<close> that fires is an entry of a
  returned list of messages.
\<close>

subsection \<open>Constants (lines 32 to 41)\<close>

definition EditorAWSPreferencesFileName :: string where
  "EditorAWSPreferencesFileName = ''editor_aws_preferences.setreg''"

definition AWSAttributionSettingsPrefixKey :: string where
  "AWSAttributionSettingsPrefixKey = ''/Amazon/AWS/Preferences''"

definition AWSAttributionEnabledKey :: string where
  "AWSAttributionEnabledKey = ''/Amazon/AWS/Preferences/AWSAttributionEnabled''"

definition AWSAttributionDelaySecondsKey :: string where
  "AWSAttributionDelaySecondsKey = ''/Amazon/AWS/Preferences/AWSAttributionDelaySeconds''"

definition AWSAttributionLastTimeStampKey :: string where
  "AWSAttributionLastTimeStampKey = ''/Amazon/AWS/Preferences/AWSAttributionLastTimeStamp''"

definition AWSAttributionApiId :: string where
  "AWSAttributionApiId = ''xbzx78kvbk''"

definition AWSAttributionChinaApiId :: string where
  "AWSAttributionChinaApiId = []"

definition AWSAttributionApiStage :: string where
  "AWSAttributionApiStage = ''prod''"

text \<open>
  The region names of the AWS SDK (\<^verbatim>\<open>Aws::Region::CN_NORTH_1\<close> and so on) are declared
  outside this file; they are the SDK's region strings.
\<close>

definition CN_NORTH_1 :: string where
  "CN_NORTH_1 = ''cn-north-1''"

definition CN_NORTHWEST_1 :: string where
  "CN_NORTHWEST_1 = ''cn-northwest-1''"

definition US_WEST_2 :: string where
  "US_WEST_2 = ''us-west-2''"

subsection \<open>SetApiEndpointAndRegion (lines 186 to 203)\<close>

text \<open>
  \<^verbatim>\<open>AWSAttributionRequestJob::Config\<close>: the two fields the function assigns. Both are
  optional values in the C++ (\<^verbatim>\<open>config->region.value()\<close>).
\<close>

record Config =
  region :: "string option"
  endpointOverride :: "string option"

text \<open>
  Modelled from the spec: \<^verbatim>\<open>AWSResourceMappingUtils::FormatRESTApiUrl\<close> is declared in
  \<^verbatim>\<open>ResourceMapping/AWSResourceMappingUtils.h\<close> and is not part of this file. It forms
  the REST API URL from an API id, a region and a stage: the API Gateway invoke URL, and
  the empty string when one of the three parts is empty.
  \<^verbatim>\<open>SetApiEndpointAndRegion\<close> below takes the formatter as an argument, so that what is
  proved of it holds for every formatter; this definition is the instance at which
  closed statements are evaluated.
\<close>

definition FormatRESTApiUrl :: "string \<Rightarrow> string \<Rightarrow> string \<Rightarrow> string" where
  "FormatRESTApiUrl restApiId restApiRegion restApiStage =
     (if restApiId \<noteq> [] \<and> restApiRegion \<noteq> [] \<and> restApiStage \<noteq> []
      then ''https://'' @ restApiId @ ''.execute-api.'' @ restApiRegion
             @ ''.amazonaws.com/'' @ restApiStage
      else [])"

text \<open>
  \<open>clientRegion\<close> is \<^verbatim>\<open>clientConfig.region\<close>, the region of the default AWS profile
  (lines 190 and 191). The statements run in the order of the source: the China branch
  assigns the region and the API id, then line 200 assigns the region again, and line
  201 formats the endpoint from the API id and the region just assigned.
\<close>

definition SetApiEndpointAndRegion ::
  "(string \<Rightarrow> string \<Rightarrow> string \<Rightarrow> string) \<Rightarrow> string \<Rightarrow> Config \<Rightarrow> Config" where
  "SetApiEndpointAndRegion formatUrl clientRegion config =
     (let apiId0 = AWSAttributionApiId;
          china = (clientRegion = CN_NORTH_1 \<or> clientRegion = CN_NORTHWEST_1);
          config1 = (if china then config\<lparr>region := Some CN_NORTH_1\<rparr> else config);
          apiId = (if china then AWSAttributionChinaApiId else apiId0);
          config2 = config1\<lparr>region := Some US_WEST_2\<rparr>
      in config2\<lparr>endpointOverride :=
           Some (formatUrl apiId (case region config2 of Some r \<Rightarrow> r | None \<Rightarrow> [])
                   AWSAttributionApiStage)\<rparr>)"

subsection \<open>The settings registry\<close>

type_synonym u64 = "64 word"

text \<open>
  Modelled from the spec: \<^verbatim>\<open>AZ::SettingsRegistryImpl\<close> (AzCore/Settings) is not part
  of this file. The spec calls its content a preferences record with an enabled flag, a
  delay and a last-send timestamp, persisted as JSON. The registry is modelled as a map
  from the JSON pointer of a leaf to the value stored there. A typed \<^verbatim>\<open>Get\<close> answers
  only when the key is present with a value of the type asked for: a JSON boolean for
  \<^verbatim>\<open>bool\<close>, a JSON integer in the range of the type for \<^verbatim>\<open>AZ::u64\<close>. \<^verbatim>\<open>Set\<close>
  stores the value and reports success, and fails, changing nothing, on a path that is
  no JSON pointer.
\<close>

datatype Setting = BoolSetting bool | IntegerSetting int | StringSetting string

type_synonym SettingsRegistry = "string \<rightharpoonup> Setting"

definition Get_bool :: "SettingsRegistry \<Rightarrow> string \<Rightarrow> bool option" where
  "Get_bool reg path = (case reg path of Some (BoolSetting b) \<Rightarrow> Some b | _ \<Rightarrow> None)"

definition Get_u64 :: "SettingsRegistry \<Rightarrow> string \<Rightarrow> u64 option" where
  "Get_u64 reg path =
     (case reg path of
        Some (IntegerSetting n) \<Rightarrow> if 0 \<le> n \<and> n < 2 ^ 64 then Some (word_of_int n) else None
      | _ \<Rightarrow> None)"

definition valid_pointer :: "string \<Rightarrow> bool" where
  "valid_pointer path = (case path of [] \<Rightarrow> False | c # _ \<Rightarrow> c = CHR ''/'')"

definition Set_u64 :: "SettingsRegistry \<Rightarrow> string \<Rightarrow> u64 \<Rightarrow> bool \<times> SettingsRegistry" where
  "Set_u64 reg path v =
     (if valid_pointer path then (True, reg(path \<mapsto> IntegerSetting (uint v))) else (False, reg))"

text \<open>
  The overload taken at line 177, whose argument is the \<^verbatim>\<open>count()\<close> of a duration in
  seconds: a signed 64-bit value (\<^verbatim>\<open>AZStd::sys_time_t\<close>), held here as the word of its
  bits and stored as the integer it denotes.
\<close>

definition Set_s64 :: "SettingsRegistry \<Rightarrow> string \<Rightarrow> u64 \<Rightarrow> bool \<times> SettingsRegistry" where
  "Set_s64 reg path v =
     (if valid_pointer path then (True, reg(path \<mapsto> IntegerSetting (sint v))) else (False, reg))"

text \<open>
  The preferences file \<^verbatim>\<open>@user@/Registry/editor_aws_preferences.setreg\<close>: absent, holding
  settings, or cut short by an incomplete write (and then no longer JSON).
  \<^verbatim>\<open>MergeSettingsFile\<close> with the root key \<^verbatim>\<open>""\<close> lays the settings of the file over
  those of the registry, and leaves the registry alone when the file does not parse.
\<close>

datatype PreferencesFile = NoFile | SettingsFile SettingsRegistry | TruncatedFile

definition Exists :: "PreferencesFile \<Rightarrow> bool" where
  "Exists file = (case file of NoFile \<Rightarrow> False | _ \<Rightarrow> True)"

definition MergeSettingsFile :: "SettingsRegistry \<Rightarrow> PreferencesFile \<Rightarrow> SettingsRegistry" where
  "MergeSettingsFile reg file = (case file of SettingsFile s \<Rightarrow> reg ++ s | _ \<Rightarrow> reg)"

text \<open>
  A key lies under a JSON pointer when it is the pointer or continues it with a further
  reference token.
\<close>

definition under_pointer :: "string \<Rightarrow> string \<Rightarrow> bool" where
  "under_pointer pointer key = (key = pointer \<or> prefix (pointer @ ''/'') key)"

text \<open>
  Modelled from the spec: \<^verbatim>\<open>AZ::SettingsRegistryMergeUtils::DumpSettingsRegistryToStream\<close>
  is not part of this file. With \<^verbatim>\<open>m_jsonPointerPrefix\<close> equal to the key it is asked
  to dump, it writes the settings below that key as JSON nested under the same pointer:
  the persisted format of the spec, "a JSON preferences file with enabled/delay/timestamp
  keys". \<open>streamOk\<close> says whether the dump succeeded.
\<close>

definition DumpSettingsRegistryToStream ::
  "SettingsRegistry \<Rightarrow> string \<Rightarrow> bool \<Rightarrow> SettingsRegistry option" where
  "DumpSettingsRegistryToStream reg key streamOk =
     (if streamOk then Some (\<lambda>k. if under_pointer key k then reg k else None) else None)"

subsection \<open>ShouldGenerateMetric (lines 71 to 128)\<close>

text \<open>
  Lines 86 to 89: the preferences the function goes on to read, the registry with the
  file merged into it when the file exists.
\<close>

definition merged_preferences :: "PreferencesFile \<Rightarrow> SettingsRegistry \<Rightarrow> SettingsRegistry" where
  "merged_preferences file reg = (if Exists file then MergeSettingsFile reg file else reg)"

text \<open>
  \<open>resolved\<close> is the result of \<^verbatim>\<open>fileIO->ResolvePath\<close>, \<open>now\<close> the seconds since the
  epoch read from the system clock at line 121. The function is \<^verbatim>\<open>const\<close> and still
  changes the registry behind \<^verbatim>\<open>m_settingsRegistry\<close> (lines 88 and 109), so the registry
  is returned, with the warnings issued.

  Line 122 compares \<^verbatim>\<open>secondsSinceLastSend.count()\<close>, a signed 64-bit count, with the
  \<^verbatim>\<open>AZ::u64\<close> \<^verbatim>\<open>delayInSeconds\<close>: the count is converted to unsigned and the
  comparison is unsigned, which on words is \<open>\<le>\<close> after the wrapping subtraction.
  The result is the same if the count is unsigned, since then the subtraction itself
  wraps. A signed subtraction that overflows is undefined in C++; here it wraps, as it
  does on two's complement hardware.
\<close>

definition ShouldGenerateMetric ::
  "bool \<Rightarrow> PreferencesFile \<Rightarrow> u64 \<Rightarrow> SettingsRegistry \<Rightarrow> bool \<times> SettingsRegistry \<times> string list" where
  "ShouldGenerateMetric resolved file now reg =
     (if \<not> resolved then (False, reg, [''Error resolving path''])
      else
        let reg1 = merged_preferences file reg;
            awsAttributionEnabled =
              (case Get_bool reg1 AWSAttributionEnabledKey of None \<Rightarrow> True | Some b \<Rightarrow> b)
        in if \<not> awsAttributionEnabled then (False, reg1, [])
           else
             let (delayInSeconds, reg2, warnings) =
                   (case Get_u64 reg1 AWSAttributionDelaySecondsKey of
                      Some d \<Rightarrow> (d, reg1, [])
                    | None \<Rightarrow>
                        (86400, snd (Set_u64 reg1 AWSAttributionDelaySecondsKey 86400),
                         [''AWSAttribution delay key not found. Defaulting to delay to day'']))
             in case Get_u64 reg2 AWSAttributionLastTimeStampKey of
                  None \<Rightarrow> (True, reg2, warnings)
                | Some lastSendTimeStampSeconds \<Rightarrow>
                    let secondsSinceLastSend = now - lastSendTimeStampSeconds
                    in if delayInSeconds \<le> secondsSinceLastSend then (True, reg2, warnings)
                       else (False, reg2, warnings))"

subsection \<open>SaveSettingsRegistryFile and UpdateLastSend (lines 130 to 184)\<close>

text \<open>
  The body of the job started at line 171, run to its end. \<open>openOk\<close> says whether
  \<^verbatim>\<open>outputFile.Open\<close> succeeded on the resolved path (it creates or truncates the
  file), \<open>writeComplete\<close> whether \<^verbatim>\<open>Write\<close> wrote the whole buffer.
\<close>

definition SaveSettingsRegistryFile ::
  "bool \<Rightarrow> bool \<Rightarrow> bool \<Rightarrow> SettingsRegistry \<Rightarrow> PreferencesFile \<Rightarrow> PreferencesFile \<times> string list" where
  "SaveSettingsRegistryFile streamOk openOk writeComplete reg file =
     (case DumpSettingsRegistryToStream reg AWSAttributionSettingsPrefixKey streamOk of
        None \<Rightarrow> (file, [''Unable to save changes to the Editor AWS Preferences registry file''])
      | Some stringBuffer \<Rightarrow>
          if openOk then
            (if writeComplete then (SettingsFile stringBuffer, [])
             else (TruncatedFile, [''Unable to save Editor AWS Preferences registry file'']))
          else (file, [''Unable to save Editor AWS Preferences registry file'']))"

text \<open>
  \<open>time\<close> is the clock read at line 178. The warning of line 180 is given the
  condition \<^verbatim>\<open>true\<close> and so is never issued.
\<close>

definition UpdateLastSend ::
  "u64 \<Rightarrow> bool \<Rightarrow> bool \<Rightarrow> bool \<Rightarrow> SettingsRegistry \<Rightarrow> PreferencesFile
     \<Rightarrow> SettingsRegistry \<times> PreferencesFile \<times> string list" where
  "UpdateLastSend time streamOk openOk writeComplete reg file =
     (case Set_s64 reg AWSAttributionLastTimeStampKey time of
        (False, _) \<Rightarrow> (reg, file, [])
      | (True, reg') \<Rightarrow>
          (let (file', warnings) = SaveSettingsRegistryFile streamOk openOk writeComplete reg' file
           in (reg', file', warnings)))"

subsection \<open>GetActiveAWSGems and UpdateMetric (lines 226 to 254)\<close>

text \<open>
  \<^verbatim>\<open>AZStd::string::contains\<close>: the argument occurs somewhere in the string.
\<close>

fun contains :: "string \<Rightarrow> string \<Rightarrow> bool" where
  "contains [] sub = (sub = [])"
| "contains (c # cs) sub = (prefix sub (c # cs) \<or> contains cs sub)"

text \<open>
  \<^verbatim>\<open>find_last_of\<close> with a single character: the last position holding it, \<open>None\<close> for
  \<^verbatim>\<open>npos\<close>. \<^verbatim>\<open>substr(0, count)\<close>: the first \<open>count\<close> characters, the whole string
  when the count is \<^verbatim>\<open>npos\<close>.
\<close>

fun find_last_of :: "string \<Rightarrow> char \<Rightarrow> nat option" where
  "find_last_of [] ch = None"
| "find_last_of (c # cs) ch =
     (case find_last_of cs ch of
        Some i \<Rightarrow> Some (Suc i)
      | None \<Rightarrow> if c = ch then Some 0 else None)"

definition substr0 :: "string \<Rightarrow> nat option \<Rightarrow> string" where
  "substr0 s count = (case count of None \<Rightarrow> s | Some n \<Rightarrow> take n s)"

text \<open>
  \<^verbatim>\<open>EnumerateModules\<close> calls the function of line 230 on every active module, in order,
  for as long as it returns true, which it always does. \<open>names\<close> are the names of the
  module entities.
\<close>

fun GetActiveAWSGems :: "string list \<Rightarrow> string list \<Rightarrow> string list" where
  "GetActiveAWSGems [] gems = gems"
| "GetActiveAWSGems (moduleEntityName # names) gems =
     GetActiveAWSGems names
       (if contains moduleEntityName ''AWS''
        then gems @ [substr0 moduleEntityName (find_last_of moduleEntityName CHR ''.'')]
        else gems)"

text \<open>
  Modelled from the spec: \<^verbatim>\<open>AttributionMetric\<close> (AWSCoreAttributionMetric.h) is not part
  of this file; the spec gives it as "an outgoing metric record (version string, platform
  string, list of plugin name strings)". Its setters store their arguments, and
  \<^verbatim>\<open>AddActiveGem\<close> appends to the list.
\<close>

record AttributionMetric =
  o3deVersion :: string
  platform :: string
  platformVersion :: string
  activeGems :: "string list"

definition new_metric :: AttributionMetric where
  "new_metric = \<lparr>o3deVersion = [], platform = [], platformVersion = [], activeGems = []\<rparr>"

definition AddActiveGem :: "AttributionMetric \<Rightarrow> string \<Rightarrow> AttributionMetric" where
  "AddActiveGem metric gemName = metric\<lparr>activeGems := activeGems metric @ [gemName]\<rparr>"

text \<open>
  \<open>engineVersion\<close> and \<open>platformName\<close> are what \<^verbatim>\<open>GetEngineVersion\<close> and
  \<^verbatim>\<open>GetPlatform\<close> return.
\<close>

definition UpdateMetric ::
  "string \<Rightarrow> string \<Rightarrow> string list \<Rightarrow> AttributionMetric \<Rightarrow> AttributionMetric" where
  "UpdateMetric engineVersion platformName names metric =
     (let metric1 = metric\<lparr>o3deVersion := engineVersion\<rparr>;
          metric2 = metric1\<lparr>platform := platformName, platformVersion := []\<rparr>;
          gemNames = GetActiveAWSGems names []
      in foldl AddActiveGem metric2 gemNames)"

subsection \<open>SubmitMetric and MetricCheck (lines 57 to 69 and 256 to 273)\<close>

text \<open>
  What one call of \<^verbatim>\<open>MetricCheck\<close> reads from outside the manager. \<open>httpResult\<close> is
  the outcome of the request job: on success the job's callback runs
  \<^verbatim>\<open>UpdateLastSend\<close>, at the clock reading carried by \<open>Succeeded\<close>; on failure nothing
  runs. The job framework calls back later and from another thread; the model runs the
  callback as the last step of the call.
\<close>

datatype HttpResult = Succeeded u64 | Failed

record Environment =
  env_resolved :: bool
  env_now :: u64
  env_engineVersion :: string
  env_platformName :: string
  env_moduleNames :: "string list"
  env_profileRegion :: string
  env_defaultConfig :: Config
  env_formatUrl :: "string \<Rightarrow> string \<Rightarrow> string \<Rightarrow> string"
  env_httpResult :: HttpResult
  env_streamOk :: bool
  env_openOk :: bool
  env_writeComplete :: bool

record Manager =
  m_settingsRegistry :: SettingsRegistry
  preferencesFile :: PreferencesFile

text \<open>The request that was started: its configuration and its metric parameter.\<close>

type_synonym Request = "Config \<times> AttributionMetric"

definition SubmitMetric ::
  "Environment \<Rightarrow> AttributionMetric \<Rightarrow> Manager \<Rightarrow> Manager \<times> Request \<times> string list" where
  "SubmitMetric env metric mgr =
     (let config = SetApiEndpointAndRegion (env_formatUrl env) (env_profileRegion env) (env_defaultConfig env);
          requestJob = (config, metric)
      in case env_httpResult env of
           Failed \<Rightarrow> (mgr, requestJob, [])
         | Succeeded time \<Rightarrow>
             (let (reg', file', warnings) =
                    UpdateLastSend time (env_streamOk env) (env_openOk env) (env_writeComplete env)
                      (m_settingsRegistry mgr) (preferencesFile mgr)
              in (mgr\<lparr>m_settingsRegistry := reg', preferencesFile := file'\<rparr>,
                  requestJob, warnings)))"

definition MetricCheck ::
  "Environment \<Rightarrow> Manager \<Rightarrow> Manager \<times> Request option \<times> string list" where
  "MetricCheck env mgr =
     (let (generate, reg1, warnings1) =
            ShouldGenerateMetric (env_resolved env) (preferencesFile mgr) (env_now env)
              (m_settingsRegistry mgr);
          mgr1 = mgr\<lparr>m_settingsRegistry := reg1\<rparr>
      in if generate then
           (let metric = UpdateMetric (env_engineVersion env) (env_platformName env) (env_moduleNames env)
                           new_metric;
                (mgr2, requestJob, warnings2) = SubmitMetric env metric mgr1
            in (mgr2, Some requestJob, warnings1 @ warnings2))
         else (mgr1, None, warnings1))"

subsection \<open>The decision as the specification words it\<close>

text \<open>
  The condition the specification gives for sending, over the preferences that
  \<^verbatim>\<open>ShouldGenerateMetric\<close> reads and the clock: the enabled flag permits sending (it is
  not set to false), and either no last-send timestamp is recorded or the seconds
  elapsed since the recorded timestamp, as a difference of integers, are at least the
  configured delay (one day when none is configured). This definition follows the
  specification, not the source; it is what the source is compared with.
\<close>

definition spec_ShouldGenerateMetric :: "SettingsRegistry \<Rightarrow> u64 \<Rightarrow> bool" where
  "spec_ShouldGenerateMetric prefs now =
     (Get_bool prefs AWSAttributionEnabledKey \<noteq> Some False
      \<and> (case Get_u64 prefs AWSAttributionLastTimeStampKey of
           None \<Rightarrow> True
         | Some lastSend \<Rightarrow>
             uint (case Get_u64 prefs AWSAttributionDelaySecondsKey of
                     Some d \<Rightarrow> d | None \<Rightarrow> 86400)
               \<le> uint now - uint lastSend))"

section \<open>Properties\<close>

subsection \<open>Auxiliary facts\<close>

lemmas key_defs = AWSAttributionDelaySecondsKey_def AWSAttributionLastTimeStampKey_def
  AWSAttributionEnabledKey_def AWSAttributionSettingsPrefixKey_def

lemmas run_defs = ShouldGenerateMetric_def merged_preferences_def Exists_def
  MergeSettingsFile_def Get_bool_def Get_u64_def Set_u64_def Set_s64_def valid_pointer_def
  Let_def

lemmas region_defs = SetApiEndpointAndRegion_def Let_def US_WEST_2_def CN_NORTH_1_def
  CN_NORTHWEST_1_def AWSAttributionChinaApiId_def AWSAttributionApiStage_def
  AWSAttributionApiId_def

lemma keys_distinct:
  "AWSAttributionDelaySecondsKey \<noteq> AWSAttributionLastTimeStampKey"
  "AWSAttributionLastTimeStampKey \<noteq> AWSAttributionDelaySecondsKey"
  "AWSAttributionDelaySecondsKey \<noteq> AWSAttributionEnabledKey"
  "AWSAttributionEnabledKey \<noteq> AWSAttributionDelaySecondsKey"
  "AWSAttributionLastTimeStampKey \<noteq> AWSAttributionEnabledKey"
  "AWSAttributionEnabledKey \<noteq> AWSAttributionLastTimeStampKey"
  by (simp_all add: key_defs)

lemma valid_pointer_keys:
  "valid_pointer AWSAttributionDelaySecondsKey"
  "valid_pointer AWSAttributionLastTimeStampKey"
  by (simp_all add: valid_pointer_def key_defs)

lemma under_pointer_keys:
  "under_pointer AWSAttributionSettingsPrefixKey AWSAttributionEnabledKey"
  "under_pointer AWSAttributionSettingsPrefixKey AWSAttributionDelaySecondsKey"
  "under_pointer AWSAttributionSettingsPrefixKey AWSAttributionLastTimeStampKey"
  by (simp_all add: under_pointer_def key_defs)

lemma Get_u64_update_other: "k \<noteq> k' \<Longrightarrow> Get_u64 (reg(k \<mapsto> v)) k' = Get_u64 reg k'"
  by (simp add: Get_u64_def)

lemma Get_u64_absent: "reg k = None \<Longrightarrow> Get_u64 reg k = None"
  by (simp add: Get_u64_def)

lemma Get_bool_absent: "reg k = None \<Longrightarrow> Get_bool reg k = None"
  by (simp add: Get_bool_def)

text \<open>The three ways out of \<^verbatim>\<open>ShouldGenerateMetric\<close>, as equations.\<close>

lemma ShouldGenerateMetric_unresolved:
  "ShouldGenerateMetric False file now reg = (False, reg, [''Error resolving path''])"
  by (simp add: ShouldGenerateMetric_def)

lemma ShouldGenerateMetric_result:
  "fst (ShouldGenerateMetric True file now reg) =
     (Get_bool (merged_preferences file reg) AWSAttributionEnabledKey \<noteq> Some False
      \<and> (case Get_u64 (merged_preferences file reg) AWSAttributionLastTimeStampKey of
           None \<Rightarrow> True
         | Some lastSend \<Rightarrow>
             (case Get_u64 (merged_preferences file reg) AWSAttributionDelaySecondsKey of
                Some d \<Rightarrow> d | None \<Rightarrow> 86400) \<le> now - lastSend))"
  by (auto simp add: ShouldGenerateMetric_def Let_def Set_u64_def valid_pointer_keys
      Get_u64_update_other keys_distinct split: option.splits)

lemma ShouldGenerateMetric_registry:
  "fst (snd (ShouldGenerateMetric True file now reg)) =
     (if Get_bool (merged_preferences file reg) AWSAttributionEnabledKey = Some False
      then merged_preferences file reg
      else if Get_u64 (merged_preferences file reg) AWSAttributionDelaySecondsKey = None
      then (merged_preferences file reg)(AWSAttributionDelaySecondsKey \<mapsto> IntegerSetting 86400)
      else merged_preferences file reg)"
  by (auto simp add: ShouldGenerateMetric_def Let_def Set_u64_def valid_pointer_keys
      split: option.splits)


lemma ShouldGenerateMetric_disabled:
  "Get_bool (merged_preferences file reg) AWSAttributionEnabledKey = Some False \<Longrightarrow>
   \<not> fst (ShouldGenerateMetric resolved file now reg)"
  by (cases resolved)
    (simp_all add: ShouldGenerateMetric_result ShouldGenerateMetric_unresolved)

lemma ShouldGenerateMetric_no_timestamp:
  "Get_bool (merged_preferences file reg) AWSAttributionEnabledKey \<noteq> Some False \<Longrightarrow>
   merged_preferences file reg AWSAttributionLastTimeStampKey = None \<Longrightarrow>
   fst (ShouldGenerateMetric True file now reg)"
  by (simp add: ShouldGenerateMetric_result Get_u64_absent)

text \<open>The unsigned comparison of line 122 agrees with the integers when nothing wraps.\<close>

lemma elapsed_no_wrap:
  fixes now lastSend d :: u64
  assumes "lastSend \<le> now"
  shows "(d \<le> now - lastSend) = (uint d \<le> uint now - uint lastSend)"
proof -
  from assms have "uint (now - lastSend) = uint now - uint lastSend"
    by (simp add: uint_minus_simple_alt)
  then show ?thesis by (simp add: word_le_def)
qed

text \<open>\<^verbatim>\<open>MetricCheck\<close>, by the answer of \<^verbatim>\<open>ShouldGenerateMetric\<close>.\<close>

lemma MetricCheck_request:
  "(fst (snd (MetricCheck env mgr)) \<noteq> None) =
     fst (ShouldGenerateMetric (env_resolved env) (preferencesFile mgr) (env_now env)
            (m_settingsRegistry mgr))"
  by (simp add: MetricCheck_def Let_def split: prod.splits)

lemma MetricCheck_skipped:
  "\<not> fst (ShouldGenerateMetric (env_resolved env) (preferencesFile mgr) (env_now env)
            (m_settingsRegistry mgr)) \<Longrightarrow>
   MetricCheck env mgr =
     (mgr\<lparr>m_settingsRegistry := fst (snd (ShouldGenerateMetric (env_resolved env) (preferencesFile mgr) (env_now env)
            (m_settingsRegistry mgr)))\<rparr>,
      None,
      snd (snd (ShouldGenerateMetric (env_resolved env) (preferencesFile mgr) (env_now env)
            (m_settingsRegistry mgr))))"
  by (cases "ShouldGenerateMetric (env_resolved env) (preferencesFile mgr) (env_now env)
            (m_settingsRegistry mgr)") (simp add: MetricCheck_def)



text \<open>The string functions and the loop over the modules.\<close>

lemma contains_sublist: "contains s sub = sublist sub s"
  by (induction s) (simp_all add: sublist_Cons_right)

lemma contains_iff: "contains s sub = (\<exists>ps ss. s = ps @ sub @ ss)"
  by (simp add: contains_sublist sublist_def)

lemma GetActiveAWSGems_eq:
  "GetActiveAWSGems names gems =
     gems @ map (\<lambda>n. substr0 n (find_last_of n CHR ''.''))
              (filter (\<lambda>n. contains n ''AWS'') names)"
  by (induction names arbitrary: gems) simp_all

lemma foldl_AddActiveGem:
  "activeGems (foldl AddActiveGem metric gemNames) = activeGems metric @ gemNames"
  by (induction gemNames arbitrary: metric) (simp_all add: AddActiveGem_def)

lemma find_last_of_None: "(find_last_of s ch = None) = (ch \<notin> set s)"
  by (induction s) (auto split: option.splits)

lemma find_last_of_append:
  "find_last_of (xs @ ys) ch =
     (case find_last_of ys ch of
        Some i \<Rightarrow> Some (length xs + i)
      | None \<Rightarrow> find_last_of xs ch)"
  by (induction xs) (simp_all split: option.splits)

lemma find_last_of_final:
  "ch \<notin> set ext \<Longrightarrow> find_last_of (base @ ch # ext) ch = Some (length base)"
  by (simp add: find_last_of_append find_last_of_None [THEN iffD2])

subsection \<open>When a metric is sent\<close>

text \<open>
  C1, as amended. When the path of the preferences file resolves and the recorded
  last-send timestamp, if there is one, is not later than the clock, MetricCheck assembles
  and submits a metric exactly when ShouldGenerateMetric returns true, and
  ShouldGenerateMetric returns true if and only if the AWSAttributionEnabled preference
  permits sending and either no last-send timestamp is recorded or the seconds elapsed
  since the recorded timestamp are at least the configured delay.
\<close>

theorem MetricCheck_decision:
  assumes "env_resolved env"
    and "\<forall>lastSend. Get_u64 (merged_preferences (preferencesFile mgr) (m_settingsRegistry mgr))
            AWSAttributionLastTimeStampKey = Some lastSend \<longrightarrow> lastSend \<le> env_now env"
  shows "(fst (snd (MetricCheck env mgr)) \<noteq> None) =
           fst (ShouldGenerateMetric (env_resolved env) (preferencesFile mgr) (env_now env)
            (m_settingsRegistry mgr))
         \<and> fst (ShouldGenerateMetric (env_resolved env) (preferencesFile mgr) (env_now env)
            (m_settingsRegistry mgr)) =
           spec_ShouldGenerateMetric
             (merged_preferences (preferencesFile mgr) (m_settingsRegistry mgr)) (env_now env)"
proof
  show "(fst (snd (MetricCheck env mgr)) \<noteq> None) =
           fst (ShouldGenerateMetric (env_resolved env) (preferencesFile mgr) (env_now env)
            (m_settingsRegistry mgr))"
    by (rule MetricCheck_request)
next
  let ?prefs = "merged_preferences (preferencesFile mgr) (m_settingsRegistry mgr)"
  show "fst (ShouldGenerateMetric (env_resolved env) (preferencesFile mgr) (env_now env)
            (m_settingsRegistry mgr)) = spec_ShouldGenerateMetric ?prefs (env_now env)"
  proof (cases "Get_u64 ?prefs AWSAttributionLastTimeStampKey")
    case None
    with assms(1) show ?thesis
      by (simp add: ShouldGenerateMetric_result spec_ShouldGenerateMetric_def)
  next
    case (Some lastSend)
    with assms(2) have "lastSend \<le> env_now env" by simp
    with Some assms(1) show ?thesis
      by (simp add: ShouldGenerateMetric_result spec_ShouldGenerateMetric_def elapsed_no_wrap)
  qed
qed

text \<open>
  The theorem at a registry whose timestamp is 100000 seconds old, with the delay of a
  day: the metric is submitted.
\<close>

theorem MetricCheck_decision_witness:
  "fst (snd (MetricCheck
      \<lparr>env_resolved = True, env_now = 200000, env_engineVersion = ''1.0'',
        env_platformName = ''Linux'', env_moduleNames = [''AWSCore.Editor''],
        env_profileRegion = ''us-east-1'',
        env_defaultConfig = \<lparr>region = None, endpointOverride = None\<rparr>,
        env_formatUrl = FormatRESTApiUrl, env_httpResult = Failed,
        env_streamOk = True, env_openOk = True, env_writeComplete = True\<rparr>
      \<lparr>m_settingsRegistry = [AWSAttributionDelaySecondsKey \<mapsto> IntegerSetting 86400,
           AWSAttributionLastTimeStampKey \<mapsto> IntegerSetting 100000],
        preferencesFile = NoFile\<rparr>)) \<noteq> None
   \<and> spec_ShouldGenerateMetric
        (merged_preferences NoFile
          [AWSAttributionDelaySecondsKey \<mapsto> IntegerSetting 86400,
           AWSAttributionLastTimeStampKey \<mapsto> IntegerSetting 100000]) 200000"
  using MetricCheck_decision
    [of "\<lparr>env_resolved = True, env_now = 200000, env_engineVersion = ''1.0'',
        env_platformName = ''Linux'', env_moduleNames = [''AWSCore.Editor''],
        env_profileRegion = ''us-east-1'',
        env_defaultConfig = \<lparr>region = None, endpointOverride = None\<rparr>,
        env_formatUrl = FormatRESTApiUrl, env_httpResult = Failed,
        env_streamOk = True, env_openOk = True, env_writeComplete = True\<rparr>"
      "\<lparr>m_settingsRegistry = [AWSAttributionDelaySecondsKey \<mapsto> IntegerSetting 86400,
           AWSAttributionLastTimeStampKey \<mapsto> IntegerSetting 100000],
        preferencesFile = NoFile\<rparr>"]
  by (simp add: run_defs key_defs spec_ShouldGenerateMetric_def)

text \<open>
  C1 as stated fails in two places. When the path does not resolve the function returns
  false although nothing is disabled and no timestamp is recorded. When the recorded
  timestamp (200) is later than the clock (100), the signed difference of line 121 is
  negative, the comparison of line 122 reads it as unsigned, and the function returns
  true although fewer seconds than the delay have elapsed.
\<close>

theorem MetricCheck_decision_counterexample:
  "\<not> fst (ShouldGenerateMetric False NoFile 100 Map.empty)
   \<and> spec_ShouldGenerateMetric (merged_preferences NoFile Map.empty) 100
   \<and> fst (ShouldGenerateMetric True NoFile 100
        [AWSAttributionDelaySecondsKey \<mapsto> IntegerSetting 86400,
           AWSAttributionLastTimeStampKey \<mapsto> IntegerSetting 200])
   \<and> \<not> spec_ShouldGenerateMetric
        (merged_preferences NoFile
          [AWSAttributionDelaySecondsKey \<mapsto> IntegerSetting 86400,
           AWSAttributionLastTimeStampKey \<mapsto> IntegerSetting 200]) 100"
  by (simp add: run_defs key_defs spec_ShouldGenerateMetric_def)

text \<open>
  C2, as amended. The reporter is opt-out. When the AWSAttributionEnabled flag is present
  and false, ShouldGenerateMetric returns false and no metric is sent. When the flag is
  absent from the preferences, attribution counts as enabled: with the path resolved and
  no last-send timestamp recorded, ShouldGenerateMetric returns true and a metric is
  submitted.
\<close>

theorem attribution_is_opt_out:
  "(Get_bool (merged_preferences (preferencesFile mgr) (m_settingsRegistry mgr))
        AWSAttributionEnabledKey = Some False
      \<longrightarrow> \<not> fst (ShouldGenerateMetric (env_resolved env) (preferencesFile mgr) (env_now env)
            (m_settingsRegistry mgr))
          \<and> fst (snd (MetricCheck env mgr)) = None)
   \<and> (env_resolved env
        \<and> merged_preferences (preferencesFile mgr) (m_settingsRegistry mgr)
            AWSAttributionEnabledKey = None
        \<and> merged_preferences (preferencesFile mgr) (m_settingsRegistry mgr)
            AWSAttributionLastTimeStampKey = None
      \<longrightarrow> fst (ShouldGenerateMetric (env_resolved env) (preferencesFile mgr) (env_now env)
            (m_settingsRegistry mgr))
          \<and> fst (snd (MetricCheck env mgr)) \<noteq> None)"
proof (intro conjI impI)
  assume "Get_bool (merged_preferences (preferencesFile mgr) (m_settingsRegistry mgr))
        AWSAttributionEnabledKey = Some False"
  then show no: "\<not> fst (ShouldGenerateMetric (env_resolved env) (preferencesFile mgr) (env_now env)
            (m_settingsRegistry mgr))"
    by (rule ShouldGenerateMetric_disabled)
  then show "fst (snd (MetricCheck env mgr)) = None"
    by (simp add: MetricCheck_skipped)
next
  assume a: "env_resolved env
        \<and> merged_preferences (preferencesFile mgr) (m_settingsRegistry mgr)
            AWSAttributionEnabledKey = None
        \<and> merged_preferences (preferencesFile mgr) (m_settingsRegistry mgr)
            AWSAttributionLastTimeStampKey = None"
  then show yes: "fst (ShouldGenerateMetric (env_resolved env) (preferencesFile mgr) (env_now env)
            (m_settingsRegistry mgr))"
    by (simp add: ShouldGenerateMetric_no_timestamp Get_bool_absent)
  then show "fst (snd (MetricCheck env mgr)) \<noteq> None"
    by (simp only: MetricCheck_request)
qed

text \<open>The theorem at a registry with the flag set to false, and at the empty registry.\<close>

theorem attribution_is_opt_out_witness:
  "fst (snd (MetricCheck
      \<lparr>env_resolved = True, env_now = 100, env_engineVersion = ''1.0'',
        env_platformName = ''Linux'', env_moduleNames = [''AWSCore.Editor''],
        env_profileRegion = ''us-east-1'',
        env_defaultConfig = \<lparr>region = None, endpointOverride = None\<rparr>,
        env_formatUrl = FormatRESTApiUrl, env_httpResult = Failed,
        env_streamOk = True, env_openOk = True, env_writeComplete = True\<rparr>
      \<lparr>m_settingsRegistry = [AWSAttributionEnabledKey \<mapsto> BoolSetting False],
        preferencesFile = NoFile\<rparr>)) = None
   \<and> fst (snd (MetricCheck
      \<lparr>env_resolved = True, env_now = 100, env_engineVersion = ''1.0'',
        env_platformName = ''Linux'', env_moduleNames = [''AWSCore.Editor''],
        env_profileRegion = ''us-east-1'',
        env_defaultConfig = \<lparr>region = None, endpointOverride = None\<rparr>,
        env_formatUrl = FormatRESTApiUrl, env_httpResult = Failed,
        env_streamOk = True, env_openOk = True, env_writeComplete = True\<rparr>
      \<lparr>m_settingsRegistry = Map.empty,
        preferencesFile = NoFile\<rparr>)) \<noteq> None"
  using attribution_is_opt_out
    [of "\<lparr>m_settingsRegistry = [AWSAttributionEnabledKey \<mapsto> BoolSetting False],
        preferencesFile = NoFile\<rparr>"
      "\<lparr>env_resolved = True, env_now = 100, env_engineVersion = ''1.0'',
        env_platformName = ''Linux'', env_moduleNames = [''AWSCore.Editor''],
        env_profileRegion = ''us-east-1'',
        env_defaultConfig = \<lparr>region = None, endpointOverride = None\<rparr>,
        env_formatUrl = FormatRESTApiUrl, env_httpResult = Failed,
        env_streamOk = True, env_openOk = True, env_writeComplete = True\<rparr>"]
    attribution_is_opt_out
    [of "\<lparr>m_settingsRegistry = Map.empty,
        preferencesFile = NoFile\<rparr>"
      "\<lparr>env_resolved = True, env_now = 100, env_engineVersion = ''1.0'',
        env_platformName = ''Linux'', env_moduleNames = [''AWSCore.Editor''],
        env_profileRegion = ''us-east-1'',
        env_defaultConfig = \<lparr>region = None, endpointOverride = None\<rparr>,
        env_formatUrl = FormatRESTApiUrl, env_httpResult = Failed,
        env_streamOk = True, env_openOk = True, env_writeComplete = True\<rparr>"]
  by (simp add: merged_preferences_def Exists_def Get_bool_def key_defs del: not_None_eq)

text \<open>
  C2 as stated fails at the empty registry with no preferences file: the flag is absent,
  ShouldGenerateMetric returns true and MetricCheck submits a metric.
\<close>

theorem opt_in_counterexample:
  "(Map.empty :: SettingsRegistry) AWSAttributionEnabledKey = None
   \<and> fst (ShouldGenerateMetric True NoFile 100 Map.empty)
   \<and> fst (snd (MetricCheck
      \<lparr>env_resolved = True, env_now = 100, env_engineVersion = ''1.0'',
        env_platformName = ''Linux'', env_moduleNames = [''AWSCore.Editor''],
        env_profileRegion = ''us-east-1'',
        env_defaultConfig = \<lparr>region = None, endpointOverride = None\<rparr>,
        env_formatUrl = FormatRESTApiUrl, env_httpResult = Failed,
        env_streamOk = True, env_openOk = True, env_writeComplete = True\<rparr>
      \<lparr>m_settingsRegistry = Map.empty,
        preferencesFile = NoFile\<rparr>)) \<noteq> None"
  by (simp add: MetricCheck_request run_defs key_defs del: not_None_eq)

text \<open>
  C9, as amended. If the path of the preferences file resolves, attribution is enabled (or
  the enabled key is absent) and the last-send timestamp key is absent from the
  preferences, ShouldGenerateMetric returns true whatever the delay and the clock are, and
  MetricCheck submits a metric.
\<close>

theorem first_send_immediate:
  assumes "env_resolved env"
    and "Get_bool (merged_preferences (preferencesFile mgr) (m_settingsRegistry mgr))
           AWSAttributionEnabledKey = Some True
         \<or> merged_preferences (preferencesFile mgr) (m_settingsRegistry mgr)
             AWSAttributionEnabledKey = None"
    and "merged_preferences (preferencesFile mgr) (m_settingsRegistry mgr)
           AWSAttributionLastTimeStampKey = None"
  shows "fst (ShouldGenerateMetric (env_resolved env) (preferencesFile mgr) (env_now env)
            (m_settingsRegistry mgr))
         \<and> fst (snd (MetricCheck env mgr)) \<noteq> None"
proof -
  from assms(2) have "Get_bool (merged_preferences (preferencesFile mgr) (m_settingsRegistry mgr))
           AWSAttributionEnabledKey \<noteq> Some False"
    by (auto simp add: Get_bool_absent)
  with assms(1,3) have "fst (ShouldGenerateMetric (env_resolved env) (preferencesFile mgr) (env_now env)
            (m_settingsRegistry mgr))"
    by (simp add: ShouldGenerateMetric_no_timestamp)
  then show ?thesis by (simp only: MetricCheck_request simp_thms)
qed

text \<open>
  The theorem at a preferences file that enables attribution with a delay of a thousand
  million seconds and records no timestamp.
\<close>

theorem first_send_immediate_witness:
  "fst (ShouldGenerateMetric True
      (SettingsFile [AWSAttributionEnabledKey \<mapsto> BoolSetting True,
                     AWSAttributionDelaySecondsKey \<mapsto> IntegerSetting 1000000000])
      5 Map.empty)"
  using first_send_immediate
    [of "\<lparr>env_resolved = True, env_now = 5, env_engineVersion = ''1.0'',
        env_platformName = ''Linux'', env_moduleNames = [''AWSCore.Editor''],
        env_profileRegion = ''us-east-1'',
        env_defaultConfig = \<lparr>region = None, endpointOverride = None\<rparr>,
        env_formatUrl = FormatRESTApiUrl, env_httpResult = Failed,
        env_streamOk = True, env_openOk = True, env_writeComplete = True\<rparr>"
      "\<lparr>m_settingsRegistry = Map.empty,
        preferencesFile =
          SettingsFile [AWSAttributionEnabledKey \<mapsto> BoolSetting True,
                        AWSAttributionDelaySecondsKey \<mapsto> IntegerSetting 1000000000]\<rparr>"]
  by (simp add: merged_preferences_def Exists_def MergeSettingsFile_def Get_bool_def key_defs)

text \<open>
  C9 as stated fails when the path does not resolve: the keys are absent and
  ShouldGenerateMetric returns false.
\<close>

theorem first_send_immediate_counterexample:
  "(Map.empty :: SettingsRegistry) AWSAttributionEnabledKey = None
   \<and> (Map.empty :: SettingsRegistry) AWSAttributionLastTimeStampKey = None
   \<and> \<not> fst (ShouldGenerateMetric False NoFile 100 Map.empty)"
  by (simp add: ShouldGenerateMetric_def)

text \<open>
  C8, as amended. If the path of the preferences file resolves, attribution is not
  disabled and the delay key is absent, ShouldGenerateMetric writes the default of 86400
  seconds into the registry under the delay key, changing nothing else, and decides with
  that delay: it returns true exactly when no timestamp is recorded or the difference
  computed at line 121 is at least 86400.
\<close>

theorem default_delay:
  assumes "resolved"
    and "Get_bool (merged_preferences file reg) AWSAttributionEnabledKey \<noteq> Some False"
    and "merged_preferences file reg AWSAttributionDelaySecondsKey = None"
  shows "fst (snd (ShouldGenerateMetric resolved file now reg))
           = (merged_preferences file reg)(AWSAttributionDelaySecondsKey \<mapsto> IntegerSetting 86400)
         \<and> Get_u64 (fst (snd (ShouldGenerateMetric resolved file now reg)))
             AWSAttributionDelaySecondsKey = Some 86400
         \<and> fst (ShouldGenerateMetric resolved file now reg)
           = (case Get_u64 (merged_preferences file reg) AWSAttributionLastTimeStampKey of
                None \<Rightarrow> True
              | Some lastSend \<Rightarrow> 86400 \<le> now - lastSend)"
proof -
  from assms(3)
  have none: "Get_u64 (merged_preferences file reg) AWSAttributionDelaySecondsKey = None"
    by (rule Get_u64_absent)
  have "Get_u64 ((merged_preferences file reg)
          (AWSAttributionDelaySecondsKey \<mapsto> IntegerSetting 86400))
          AWSAttributionDelaySecondsKey = Some 86400"
    by (simp add: Get_u64_def)
  with assms(1,2) none show ?thesis
    by (simp add: ShouldGenerateMetric_result ShouldGenerateMetric_registry
        cong: option.case_cong)
qed

text \<open>
  The theorem at a registry that records the timestamp 10000 and no delay: 80000 seconds
  later the answer is false, 86400 seconds later it is true, and the default is stored.
\<close>

theorem default_delay_witness:
  "fst (snd (ShouldGenerateMetric True NoFile 90000
        [AWSAttributionLastTimeStampKey \<mapsto> IntegerSetting 10000]))
      AWSAttributionDelaySecondsKey = Some (IntegerSetting 86400)
   \<and> \<not> fst (ShouldGenerateMetric True NoFile 90000
        [AWSAttributionLastTimeStampKey \<mapsto> IntegerSetting 10000])
   \<and> fst (ShouldGenerateMetric True NoFile 96400
        [AWSAttributionLastTimeStampKey \<mapsto> IntegerSetting 10000])"
  using default_delay
    [of True NoFile "[AWSAttributionLastTimeStampKey \<mapsto> IntegerSetting 10000]" 90000]
    default_delay
    [of True NoFile "[AWSAttributionLastTimeStampKey \<mapsto> IntegerSetting 10000]" 96400]
  by (simp add: merged_preferences_def Exists_def Get_bool_def Get_u64_def key_defs)

text \<open>
  C8 as stated fails when attribution is disabled: the delay key is absent before the
  call and still absent after it, since the function returns at line 100.
\<close>

theorem default_delay_counterexample:
  "[AWSAttributionEnabledKey \<mapsto> BoolSetting False] AWSAttributionDelaySecondsKey = None
   \<and> fst (snd (ShouldGenerateMetric True NoFile 100
        [AWSAttributionEnabledKey \<mapsto> BoolSetting False])) AWSAttributionDelaySecondsKey = None"
  by (simp add: run_defs key_defs)

subsection \<open>Failure to resolve the path\<close>

text \<open>
  C6. When resolving the path of the preferences file fails, ShouldGenerateMetric issues
  one warning and returns false without touching the registry; MetricCheck then submits
  no metric and leaves the registry and the preferences file as they were.
\<close>

theorem path_resolution_failure:
  assumes "\<not> env_resolved env"
  shows "ShouldGenerateMetric (env_resolved env) file now reg
           = (False, reg, [''Error resolving path''])
         \<and> MetricCheck env mgr = (mgr, None, [''Error resolving path''])"
  using assms by (simp add: MetricCheck_skipped ShouldGenerateMetric_unresolved)

text \<open>The theorem at an environment whose HTTP job would have succeeded.\<close>

theorem path_resolution_failure_witness:
  "MetricCheck
      \<lparr>env_resolved = False, env_now = 200000, env_engineVersion = ''1.0'',
        env_platformName = ''Linux'', env_moduleNames = [''AWSCore.Editor''],
        env_profileRegion = ''us-east-1'',
        env_defaultConfig = \<lparr>region = None, endpointOverride = None\<rparr>,
        env_formatUrl = FormatRESTApiUrl, env_httpResult = Succeeded 200001,
        env_streamOk = True, env_openOk = True, env_writeComplete = True\<rparr>
      \<lparr>m_settingsRegistry = Map.empty,
        preferencesFile = NoFile\<rparr>
    = (\<lparr>m_settingsRegistry = Map.empty,
        preferencesFile = NoFile\<rparr>, None,
       [''Error resolving path''])"
  using path_resolution_failure
    [of "\<lparr>env_resolved = False, env_now = 200000, env_engineVersion = ''1.0'',
        env_platformName = ''Linux'', env_moduleNames = [''AWSCore.Editor''],
        env_profileRegion = ''us-east-1'',
        env_defaultConfig = \<lparr>region = None, endpointOverride = None\<rparr>,
        env_formatUrl = FormatRESTApiUrl, env_httpResult = Succeeded 200001,
        env_streamOk = True, env_openOk = True, env_writeComplete = True\<rparr>"
      NoFile 0 Map.empty "\<lparr>m_settingsRegistry = Map.empty,
        preferencesFile = NoFile\<rparr>"]
  by simp

subsection \<open>The last-send timestamp\<close>







subsection \<open>The preferences file\<close>

text \<open>
  C7. SaveSettingsRegistryFile persists exactly the part of the settings registry under
  /Amazon/AWS/Preferences, where the enabled, delay and last-timestamp keys lie: when the
  dump, the opening of the file and the write succeed, the file holds that subtree and
  nothing else; otherwise the file is left as it was or cut short. What is written does
  not depend on registry content outside the prefix.
\<close>

theorem SaveSettingsRegistryFile_subtree:
  "(streamOk \<and> openOk \<and> writeComplete \<longrightarrow>
      fst (SaveSettingsRegistryFile streamOk openOk writeComplete reg file) =
        SettingsFile (\<lambda>k. if under_pointer AWSAttributionSettingsPrefixKey k then reg k else None))
   \<and> (fst (SaveSettingsRegistryFile streamOk openOk writeComplete reg file) = file
      \<or> fst (SaveSettingsRegistryFile streamOk openOk writeComplete reg file) = TruncatedFile
      \<or> fst (SaveSettingsRegistryFile streamOk openOk writeComplete reg file) =
        SettingsFile (\<lambda>k. if under_pointer AWSAttributionSettingsPrefixKey k then reg k else None))
   \<and> (\<forall>reg'. (\<forall>k. under_pointer AWSAttributionSettingsPrefixKey k \<longrightarrow> reg' k = reg k) \<longrightarrow>
         SaveSettingsRegistryFile streamOk openOk writeComplete reg' file =
         SaveSettingsRegistryFile streamOk openOk writeComplete reg file)
   \<and> under_pointer AWSAttributionSettingsPrefixKey AWSAttributionEnabledKey
   \<and> under_pointer AWSAttributionSettingsPrefixKey AWSAttributionDelaySecondsKey
   \<and> under_pointer AWSAttributionSettingsPrefixKey AWSAttributionLastTimeStampKey"
proof (intro conjI allI impI)
  fix reg' :: SettingsRegistry
  assume "\<forall>k. under_pointer AWSAttributionSettingsPrefixKey k \<longrightarrow> reg' k = reg k"
  then have "(\<lambda>k. if under_pointer AWSAttributionSettingsPrefixKey k then reg' k else None) =
             (\<lambda>k. if under_pointer AWSAttributionSettingsPrefixKey k then reg k else None)"
    by auto
  then show "SaveSettingsRegistryFile streamOk openOk writeComplete reg' file =
         SaveSettingsRegistryFile streamOk openOk writeComplete reg file"
    by (simp add: SaveSettingsRegistryFile_def DumpSettingsRegistryToStream_def)
qed (simp_all add: SaveSettingsRegistryFile_def DumpSettingsRegistryToStream_def
      under_pointer_keys)

text \<open>
  The theorem at a registry with one key under the prefix, one whose name only starts
  with the prefix, and one elsewhere: the file holds the first and neither of the others.
\<close>

theorem SaveSettingsRegistryFile_subtree_witness:
  "(case fst (SaveSettingsRegistryFile True True True
        [''/Amazon/AWS/Preferences/AWSAttributionLastTimeStamp'' \<mapsto> IntegerSetting 5,
         ''/Amazon/AWS/PreferencesOther'' \<mapsto> BoolSetting True,
         ''/O3DE/Key'' \<mapsto> StringSetting ''x''] NoFile) of
      SettingsFile s \<Rightarrow>
        s ''/Amazon/AWS/Preferences/AWSAttributionLastTimeStamp'' = Some (IntegerSetting 5)
        \<and> s ''/Amazon/AWS/PreferencesOther'' = None \<and> s ''/O3DE/Key'' = None
    | _ \<Rightarrow> False)"
proof -
  have ok: "True \<and> True \<and> True" by simp
  note written = SaveSettingsRegistryFile_subtree
    [of True True True
      "[''/Amazon/AWS/Preferences/AWSAttributionLastTimeStamp'' \<mapsto> IntegerSetting 5,
         ''/Amazon/AWS/PreferencesOther'' \<mapsto> BoolSetting True,
         ''/O3DE/Key'' \<mapsto> StringSetting ''x'']" NoFile, THEN conjunct1, THEN mp, OF ok]
  show ?thesis
    by (simp add: written under_pointer_def key_defs)
qed

subsection \<open>The metric\<close>

text \<open>
  C5, as amended. The metric's list of active gems holds, in the order of enumeration,
  exactly the names of the enumerated modules in which "AWS" occurs somewhere (membership
  is decided by a substring match on the name of the module entity, not a prefix match),
  each cut before its final '.': a name without '.' is kept whole, and a name with one
  loses the final '.' and what follows it.
\<close>

theorem UpdateMetric_activeGems:
  "activeGems (UpdateMetric version pf names new_metric) =
     map (\<lambda>n. substr0 n (find_last_of n CHR ''.''))
       (filter (\<lambda>n. \<exists>ps ss. n = ps @ ''AWS'' @ ss) names)
   \<and> (\<forall>n. CHR ''.'' \<notin> set n \<longrightarrow> substr0 n (find_last_of n CHR ''.'') = n)
   \<and> (\<forall>base ext. CHR ''.'' \<notin> set ext \<longrightarrow>
         substr0 (base @ CHR ''.'' # ext) (find_last_of (base @ CHR ''.'' # ext) CHR ''.'') = base)"
proof (intro conjI allI impI)
  have "(\<lambda>n. contains n ''AWS'') = (\<lambda>n. \<exists>ps ss. n = ps @ ''AWS'' @ ss)"
    by (rule ext) (rule contains_iff)
  then show "activeGems (UpdateMetric version pf names new_metric) =
     map (\<lambda>n. substr0 n (find_last_of n CHR ''.''))
       (filter (\<lambda>n. \<exists>ps ss. n = ps @ ''AWS'' @ ss) names)"
    by (simp add: UpdateMetric_def Let_def foldl_AddActiveGem GetActiveAWSGems_eq new_metric_def)
next
  fix n :: string
  assume "CHR ''.'' \<notin> set n"
  then show "substr0 n (find_last_of n CHR ''.'') = n"
    by (simp add: find_last_of_None [THEN iffD2] substr0_def)
next
  fix base ext :: string
  assume "CHR ''.'' \<notin> set ext"
  then show "substr0 (base @ CHR ''.'' # ext) (find_last_of (base @ CHR ''.'' # ext) CHR ''.'') = base"
    by (simp add: find_last_of_final substr0_def)
qed

text \<open>The theorem at four modules, one of them without "AWS" in its name.\<close>

theorem UpdateMetric_activeGems_witness:
  "activeGems (UpdateMetric ''1.0'' ''Windows''
      [''AWSCore.Editor'', ''LibAWS.Static.dll'', ''Atom'', ''AWSMetrics''] new_metric)
     = [''AWSCore'', ''LibAWS.Static'', ''AWSMetrics'']
   \<and> [''AWSCore'', ''LibAWS.Static'', ''AWSMetrics'']
     = map (\<lambda>n. substr0 n (find_last_of n CHR ''.''))
         (filter (\<lambda>n. \<exists>ps ss. n = ps @ ''AWS'' @ ss)
            [''AWSCore.Editor'', ''LibAWS.Static.dll'', ''Atom'', ''AWSMetrics''])"
proof -
  have run: "activeGems (UpdateMetric ''1.0'' ''Windows''
      [''AWSCore.Editor'', ''LibAWS.Static.dll'', ''Atom'', ''AWSMetrics''] new_metric)
     = [''AWSCore'', ''LibAWS.Static'', ''AWSMetrics'']"
    by (simp add: UpdateMetric_def Let_def new_metric_def AddActiveGem_def substr0_def)
  from UpdateMetric_activeGems [of "''1.0''" "''Windows''"
      "[''AWSCore.Editor'', ''LibAWS.Static.dll'', ''Atom'', ''AWSMetrics'']"]
  have "activeGems (UpdateMetric ''1.0'' ''Windows''
      [''AWSCore.Editor'', ''LibAWS.Static.dll'', ''Atom'', ''AWSMetrics''] new_metric)
     = map (\<lambda>n. substr0 n (find_last_of n CHR ''.''))
         (filter (\<lambda>n. \<exists>ps ss. n = ps @ ''AWS'' @ ss)
            [''AWSCore.Editor'', ''LibAWS.Static.dll'', ''Atom'', ''AWSMetrics''])"
    by (rule conjunct1)
  with run show ?thesis by (simp only:)
qed

text \<open>
  C5 as stated fails at a module named LibAWS.Editor: "AWS" is not a prefix of the name,
  and the name is in the list.
\<close>

theorem prefix_match_counterexample:
  "activeGems (UpdateMetric ''1.0'' ''Windows'' [''LibAWS.Editor''] new_metric) = [''LibAWS'']
   \<and> \<not> prefix ''AWS'' ''LibAWS.Editor''"
  by (simp add: UpdateMetric_def Let_def new_metric_def AddActiveGem_def substr0_def)

subsection \<open>The request configuration\<close>

text \<open>
  C4, as amended. For every client profile whose region is neither cn-north-1 nor
  cn-northwest-1, SetApiEndpointAndRegion produces the same endpointOverride, the REST API
  URL formed from the API id "xbzx78kvbk", the region us-west-2 and the stage "prod". For
  those two regions the URL is formed from the empty China API id, us-west-2 and "prod".
\<close>

theorem SetApiEndpointAndRegion_endpoint:
  "endpointOverride (SetApiEndpointAndRegion fmt clientRegion config) =
     (if clientRegion = ''cn-north-1'' \<or> clientRegion = ''cn-northwest-1''
      then Some (fmt [] ''us-west-2'' ''prod'')
      else Some (fmt ''xbzx78kvbk'' ''us-west-2'' ''prod''))"
  by (simp add: region_defs)

text \<open>The theorem at the profile region eu-west-1.\<close>

theorem SetApiEndpointAndRegion_endpoint_witness:
  "endpointOverride (SetApiEndpointAndRegion FormatRESTApiUrl ''eu-west-1''
      \<lparr>region = None, endpointOverride = None\<rparr>)
     = Some ''https://xbzx78kvbk.execute-api.us-west-2.amazonaws.com/prod''"
  using SetApiEndpointAndRegion_endpoint
    [of FormatRESTApiUrl "''eu-west-1''" "\<lparr>region = None, endpointOverride = None\<rparr>"]
  by (simp add: FormatRESTApiUrl_def)

text \<open>
  C4 as stated fails at the profile region cn-north-1: the endpoint is not the URL formed
  from "xbzx78kvbk".
\<close>

theorem fixed_endpoint_counterexample:
  "endpointOverride (SetApiEndpointAndRegion FormatRESTApiUrl ''cn-north-1''
      \<lparr>region = None, endpointOverride = None\<rparr>)
     \<noteq> Some (FormatRESTApiUrl ''xbzx78kvbk'' ''us-west-2'' ''prod'')"
  by (simp add: region_defs FormatRESTApiUrl_def)

text \<open>
  C10. After SetApiEndpointAndRegion returns, the region of the configuration is
  us-west-2 for every client region and every configuration passed in, also when the
  default profile's region is cn-north-1 or cn-northwest-1: the assignment of the China
  region is overwritten. For those two regions the API id passed to the URL formatter is
  the empty China id.
\<close>

theorem SetApiEndpointAndRegion_region:
  "region (SetApiEndpointAndRegion fmt clientRegion config) = Some ''us-west-2''
   \<and> (if clientRegion = ''cn-north-1'' \<or> clientRegion = ''cn-northwest-1''
      then endpointOverride (SetApiEndpointAndRegion fmt clientRegion config)
             = Some (fmt [] ''us-west-2'' ''prod'')
      else True)"
  by (simp add: region_defs)

text \<open>The theorem at the profile region cn-north-1.\<close>

theorem SetApiEndpointAndRegion_region_witness:
  "region (SetApiEndpointAndRegion FormatRESTApiUrl ''cn-north-1''
      \<lparr>region = None, endpointOverride = None\<rparr>) = Some ''us-west-2''
   \<and> endpointOverride (SetApiEndpointAndRegion FormatRESTApiUrl ''cn-north-1''
      \<lparr>region = None, endpointOverride = None\<rparr>) = Some []"
  using SetApiEndpointAndRegion_region
    [of FormatRESTApiUrl "''cn-north-1''" "\<lparr>region = None, endpointOverride = None\<rparr>"]
  by (simp add: FormatRESTApiUrl_def)

end
